theory Spec2Isabelle
  imports Main
begin

section \<open>JavaScript strings and platform values\<close>

text \<open>
  The shell is TypeScript. Strings are modelled as \<^typ>\<open>string\<close>, \<open>T | null\<close> as
  \<^typ>\<open>'a option\<close>, and the string methods the sources call are written out.
\<close>

definition startsWith :: "string \<Rightarrow> string \<Rightarrow> bool" where
  "startsWith s p = (take (length p) s = p)"

text \<open>\<open>s.includes(p)\<close>: \<open>p\<close> occurs somewhere in \<open>s\<close>.\<close>

fun includesStr :: "string \<Rightarrow> string \<Rightarrow> bool" where
  "includesStr [] p = (p = [])"
| "includesStr (c # cs) p = (startsWith (c # cs) p \<or> includesStr cs p)"

text \<open>\<open>s.replace(p, r)\<close> with a string pattern: only the first occurrence is replaced.\<close>

fun replace :: "string \<Rightarrow> string \<Rightarrow> string \<Rightarrow> string" where
  "replace [] p r = (if p = [] then r else [])"
| "replace (c # cs) p r =
     (if startsWith (c # cs) p then r @ drop (length p) (c # cs) else c # replace cs p r)"

text \<open>JavaScript truthiness of a \<open>string | null\<close> value: \<open>null\<close> and \<open>''\<close> are falsy.\<close>

definition truthy :: "string option \<Rightarrow> bool" where
  "truthy v = (case v of None \<Rightarrow> False | Some s \<Rightarrow> s \<noteq> [])"


text \<open>
  The object \<open>new URL(s)\<close> yields, reduced to the three components the sources read.
  The parser itself belongs to the platform: \<open>extractPath\<close> takes it as the parameter
  \<open>newURL\<close>, where \<open>None\<close> stands for the \<open>TypeError\<close> it throws on a string it
  cannot parse, and the two callback parsers are modelled on the object it returned.
\<close>

record URL =
  pathname :: string
  search :: string
  hash :: string

section \<open>Route classifier\<close>

record RouteInfo =
  path :: string
  isTabRoute :: bool
  isHome :: bool
  canGoBack :: bool

text \<open>
  \<open>src/lib/webview/utils.ts\<close>. \<open>IS_DEV_ANDROID\<close> comes from the constants module, which
  is not part of the sources, and is taken as a parameter.
\<close>

definition toEmulatorUrl :: "bool \<Rightarrow> string \<Rightarrow> string" where
  "toEmulatorUrl IS_DEV_ANDROID u = (if IS_DEV_ANDROID then replace u ''localhost'' ''10.0.2.2'' else u)"

definition hasLocalhost :: "bool \<Rightarrow> string \<Rightarrow> bool" where
  "hasLocalhost IS_DEV_ANDROID u = (IS_DEV_ANDROID \<and> includesStr u ''localhost'')"

definition extractPath :: "(string \<Rightarrow> URL option) \<Rightarrow> string \<Rightarrow> string" where
  "extractPath newURL u = (case newURL u of Some parsed \<Rightarrow> pathname parsed | None \<Rightarrow> ''/'')"

text \<open>
  \<open>handleNavigation\<close> of \<open>src/app/index.tsx\<close> (lines 197--214). The screen keeps the
  route descriptor and the address the content surface is pointed at. \<open>isTabRoute\<close> is
  the membership test of the routes module, which is not part of the sources: it is the
  parameter \<open>isTabRoute_fn\<close>.
\<close>

record WebViewNavigation =
  nav_url :: string
  nav_canGoBack :: bool

record screen =
  routeInfo :: RouteInfo
  url :: string

definition handleNavigation ::
  "bool \<Rightarrow> (string \<Rightarrow> URL option) \<Rightarrow> (string \<Rightarrow> bool) \<Rightarrow> WebViewNavigation \<Rightarrow> screen \<Rightarrow> screen" where
  "handleNavigation IS_DEV_ANDROID newURL isTabRoute_fn navState scr =
     (let p = extractPath newURL (nav_url navState);
          onTabRoute = isTabRoute_fn p;
          home = (p = ''/'');
          scr1 = scr\<lparr>routeInfo := (routeInfo scr)\<lparr>path := p, isTabRoute := onTabRoute,
                    isHome := home, canGoBack := (nav_canGoBack navState \<and> \<not> home)\<rparr>\<rparr>
      in if hasLocalhost IS_DEV_ANDROID (nav_url navState)
         then scr1\<lparr>url := toEmulatorUrl IS_DEV_ANDROID (nav_url navState)\<rparr>
         else scr1)"

section \<open>Command channel and back-navigation decision engine\<close>

text \<open>\<open>AppCommand\<close> of \<open>src/lib/webview/bridge.ts\<close>.\<close>

datatype AppCommand = NAVIGATE_HOME | NAVIGATE_TO string | GET_ROUTE_INFO

text \<open>
  Every script the host injects dispatches one \<open>app-command\<close> event inside the content
  runtime; the model keeps the event's \<open>detail\<close> and drops the script text around it.
  Besides the bridge's commands these are the details the two authentication hooks
  build by hand.
\<close>

datatype detail =
    Bridge AppCommand
  | SET_TOKEN "string option"
  | SET_SESSION string string
  | CLEAR_SESSION

text \<open>
  What the host does to the world outside its own state, in the order it does it:
  calls on the mounted WebView, calls on the credential provider (\<open>supabase.auth\<close>),
  \<open>BackHandler.exitApp\<close>, the toast, and \<open>console.error\<close>. \<open>console.log\<close> is not
  recorded.
\<close>

datatype effect =
    InjectJavaScript detail
  | GoBack
  | ExitApp
  | ToastShow
  | AuthSignOut
  | AuthRefreshSession
  | ConsoleError string

text \<open>
  \<open>webViewRef.current\<close> is either a mounted WebView or \<open>null\<close>; the model keeps
  whether one is mounted, as the boolean \<open>webView\<close>. \<open>sendCommand\<close> of \<open>bridge.ts\<close> calls
  \<open>webViewRef.current?.injectJavaScript\<close> and returns \<open>void\<close>: it yields the effects
  only, and the unit value is its result.
\<close>

definition sendCommand :: "bool \<Rightarrow> AppCommand \<Rightarrow> unit \<times> effect list" where
  "sendCommand webView command =
     ((), if webView then [InjectJavaScript (Bridge command)] else [])"

definition navigateHome :: "bool \<Rightarrow> effect list" where
  "navigateHome webView = snd (sendCommand webView NAVIGATE_HOME)"

definition navigateTo :: "bool \<Rightarrow> string \<Rightarrow> effect list" where
  "navigateTo webView p = snd (sendCommand webView (NAVIGATE_TO p))"

definition requestRouteInfo :: "bool \<Rightarrow> effect list" where
  "requestRouteInfo webView = snd (sendCommand webView GET_ROUTE_INFO)"

text \<open>
  \<open>useSmartBackHandler\<close> of \<open>src/hooks/use-smart-back-handler.ts\<close>. Its state is
  \<open>lastBackPressRef\<close> (initially 0). \<open>IS_ANDROID\<close> and \<open>DOUBLE_TAP_EXIT_DELAY\<close> come
  from the constants module, which is not part of the sources, and are parameters;
  \<open>now\<close> is the value \<open>Date.now()\<close> returns, in milliseconds. The result is the
  boolean the handler returns (true: the event is consumed), the effects, and the new
  \<open>lastBackPressRef\<close>.
\<close>

definition showExitToast :: "bool \<Rightarrow> effect list" where
  "showExitToast IS_ANDROID = (if IS_ANDROID then [ToastShow] else [])"

definition handleBackPress ::
  "bool \<Rightarrow> int \<Rightarrow> bool \<Rightarrow> RouteInfo \<Rightarrow> int \<Rightarrow> int \<Rightarrow> bool \<times> effect list \<times> int" where
  "handleBackPress IS_ANDROID DOUBLE_TAP_EXIT_DELAY webView info now lastBackPressRef =
     (if \<not> IS_ANDROID then (False, [], lastBackPressRef)
      else if \<not> isTabRoute info \<and> canGoBack info
        then (True, (if webView then [GoBack] else []), lastBackPressRef)
      else if isTabRoute info \<and> \<not> isHome info
        then (True, navigateHome webView, lastBackPressRef)
      else if now - lastBackPressRef < DOUBLE_TAP_EXIT_DELAY
        then (True, [ExitApp], lastBackPressRef)
      else (True, showExitToast IS_ANDROID, now))"

section \<open>Authentication hooks: what the two versions share\<close>

text \<open>
  The sources hold two versions of the hook \<open>useAuth\<close>: the one that pushes the access
  token (\<open>src/hooks/use-auth.ts\<close>, command \<open>SET_TOKEN\<close>, confirmation
  \<open>TOKEN_RECEIVED\<close>) and the one that pushes the whole session (\<open>src/app/index.tsx\<close>
  from line 340, commands \<open>SET_SESSION\<close> and \<open>CLEAR_SESSION\<close>, confirmation
  \<open>SESSION_SET\<close>). Both are modelled, each from its own text. Names that the two
  versions share carry the suffix \<open>_session\<close> in the second.
\<close>

record Session =
  access_token :: string
  refresh_token :: string

text \<open>The first argument of the provider's \<open>onAuthStateChange\<close> callback.\<close>

datatype AuthChangeEvent =
    INITIAL_SESSION | PASSWORD_RECOVERY | SIGNED_IN | SIGNED_OUT
  | TOKEN_REFRESHED | USER_UPDATED | MFA_CHALLENGE_VERIFIED

text \<open>
  \<open>WebToAppMessage\<close>, after \<open>JSON.parse\<close>. The hooks switch on \<open>type\<close> and have no
  default branch. \<open>success\<close> of \<open>TOKEN_RECEIVED\<close> may be missing (the token hook reads
  \<open>message.success ?? true\<close>).
\<close>

datatype WebToAppMessage =
    ROUTE_INFO RouteInfo
  | LOGOUT
  | REQUEST_LOGIN
  | WEB_READY
  | TOKEN_RECEIVED "bool option"
  | REQUEST_TOKEN_REFRESH
  | SESSION_SET bool
  | REQUEST_SESSION_REFRESH
  | SESSION_EXPIRED

text \<open>
  How an awaited provider call ends, and the \<open>{data, error}\<close> object
  \<open>refreshSession\<close> resolves to.
\<close>

datatype 'a awaited = Fulfilled 'a | Rejected string

record AuthResponse =
  resp_error :: "string option"
  resp_session :: "Session option"

text \<open>
  The state both versions keep: the \<open>useState\<close> cells \<open>session\<close>, \<open>isReady\<close>,
  \<open>isLoggingIn\<close>, the ref \<open>webReadyRef\<close>, and whether \<open>webViewRef.current\<close> is a
  mounted WebView. Around it the model keeps what the JavaScript runtime keeps: the
  armed timers (handle to delay in milliseconds), the confirmation promises that are
  settled (promise to value), and the next unused handle. A confirmation promise and
  the timer created for it share one handle. \<open>effects\<close> is the log of what the hook
  did to the outside, oldest first.
\<close>

record hook =
  webViewRef :: bool
  session :: "Session option"
  isReady :: bool
  isLoggingIn :: bool
  webReadyRef :: bool
  timers :: "nat \<rightharpoonup> nat"
  promises :: "nat \<rightharpoonup> bool"
  fresh :: nat
  effects :: "effect list"

text \<open>A promise settles once: \<open>resolve\<close> on a settled promise does nothing.\<close>

definition resolve :: "nat \<Rightarrow> bool \<Rightarrow> 'a hook_scheme \<Rightarrow> 'a hook_scheme" where
  "resolve p v st =
     (case promises st p of None \<Rightarrow> st\<lparr>promises := (promises st)(p \<mapsto> v)\<rparr> | Some _ \<Rightarrow> st)"

definition clearTimeout :: "nat \<Rightarrow> 'a hook_scheme \<Rightarrow> 'a hook_scheme" where
  "clearTimeout t st = st\<lparr>timers := (timers st)(t := None)\<rparr>"

text \<open>
  \<open>new Promise\<close> together with the \<open>setTimeout\<close> of its executor: a new handle,
  armed with the delay.
\<close>

definition setTimeout :: "nat \<Rightarrow> 'a hook_scheme \<Rightarrow> nat \<times> 'a hook_scheme" where
  "setTimeout delay st =
     (fresh st, st\<lparr>timers := (timers st)(fresh st \<mapsto> delay), fresh := Suc (fresh st)\<rparr>)"

definition perform :: "effect \<Rightarrow> 'a hook_scheme \<Rightarrow> 'a hook_scheme" where
  "perform e st = st\<lparr>effects := effects st @ [e]\<rparr>"

section \<open>The token hook (src/hooks/use-auth.ts)\<close>

record token_hook = hook +
  lastSentTokenRef :: "string option"
  tokenReceivedResolverRef :: "nat option"

text \<open>
  \<open>sendTokenToWebView\<close> (lines 82--113). The script carries
  \<open>token ? JSON.stringify(token) : 'null'\<close>, so an empty token is sent as \<open>null\<close>.
\<close>

definition sendTokenToWebView :: "string option \<Rightarrow> bool \<Rightarrow> token_hook \<Rightarrow> bool \<times> token_hook" where
  "sendTokenToWebView token force st =
     (if \<not> webViewRef st then (False, st)
      else if \<not> force \<and> lastSentTokenRef st = token then (False, st)
      else (True, perform (InjectJavaScript (SET_TOKEN (if truthy token then token else None)))
                    (st\<lparr>lastSentTokenRef := token\<rparr>)))"

text \<open>
  The closure stored in \<open>tokenReceivedResolverRef\<close> for the promise \<open>p\<close> (lines
  139--143), and the callback of its timer (lines 132--136).
\<close>

definition tokenReceivedResolver :: "nat \<Rightarrow> bool \<Rightarrow> token_hook \<Rightarrow> token_hook" where
  "tokenReceivedResolver p success st =
     resolve p success ((clearTimeout p st)\<lparr>tokenReceivedResolverRef := None\<rparr>)"

definition tokenTimeoutCallback :: "nat \<Rightarrow> token_hook \<Rightarrow> token_hook" where
  "tokenTimeoutCallback p st = resolve p False (st\<lparr>tokenReceivedResolverRef := None\<rparr>)"

text \<open>
  The runtime fires an armed timer: the handle is spent and the callback runs. A
  cleared timer never fires.
\<close>

definition timerFires :: "nat \<Rightarrow> token_hook \<Rightarrow> token_hook" where
  "timerFires t st =
     (case timers st t of None \<Rightarrow> st | Some _ \<Rightarrow> tokenTimeoutCallback t (clearTimeout t st))"

text \<open>
  \<open>sendTokenAndWaitConfirmation\<close> (lines 121--153). The executor of the promise runs
  at once; the result is the handle of the promise returned and the state the executor
  leaves.
\<close>

definition sendTokenAndWaitConfirmation ::
  "string option \<Rightarrow> nat \<Rightarrow> token_hook \<Rightarrow> nat \<times> token_hook" where
  "sendTokenAndWaitConfirmation token timeout st =
     (let st1 = (case tokenReceivedResolverRef st of
                   Some q \<Rightarrow> tokenReceivedResolver q False st
                 | None \<Rightarrow> st);
          (p, st2) = setTimeout timeout st1;
          st3 = st2\<lparr>tokenReceivedResolverRef := Some p\<rparr>;
          (sent, st4) = sendTokenToWebView token True st3
      in if \<not> sent
         then (p, resolve p False ((clearTimeout p st4)\<lparr>tokenReceivedResolverRef := None\<rparr>))
         else (p, st4))"

definition syncTokenToWebView :: "bool \<Rightarrow> token_hook \<Rightarrow> token_hook" where
  "syncTokenToWebView force st =
     snd (sendTokenToWebView (map_option access_token (session st)) force st)"

text \<open>
  \<open>refreshAndSyncToken\<close> (lines 167--186) suspends at
  \<open>await supabase.auth.refreshSession()\<close>: \<open>_call\<close> runs up to the await, \<open>_resume\<close>
  from the await on, given how the provider call ended. \<open>_try\<close> is the body of the
  \<open>try\<close> block after the await (\<open>Inl\<close>: an exception leaves the block), \<open>_resume\<close>
  adds the \<open>catch\<close>. The first component of the result of an asynchronous function is
  the reason its promise rejects with, \<open>None\<close> when it fulfils.
\<close>

definition refreshAndSyncToken_call :: "token_hook \<Rightarrow> token_hook" where
  "refreshAndSyncToken_call st = perform AuthRefreshSession st"

definition refreshAndSyncToken_try :: "AuthResponse awaited \<Rightarrow> token_hook \<Rightarrow> string + token_hook" where
  "refreshAndSyncToken_try r st =
     (case r of
        Rejected e \<Rightarrow> Inl e
      | Fulfilled resp \<Rightarrow>
          (case resp_error resp of
             Some msg \<Rightarrow> Inr (perform (ConsoleError msg) st)
           | None \<Rightarrow>
               (case resp_session resp of
                  Some s \<Rightarrow> Inr (snd (sendTokenToWebView (Some (access_token s)) True st))
                | None \<Rightarrow> Inr st)))"

definition refreshAndSyncToken_resume ::
  "AuthResponse awaited \<Rightarrow> token_hook \<Rightarrow> string option \<times> token_hook" where
  "refreshAndSyncToken_resume r st =
     (case refreshAndSyncToken_try r st of
        Inl e \<Rightarrow> (None, perform (ConsoleError e) st)
      | Inr st' \<Rightarrow> (None, st'))"

text \<open>\<open>handleWebMessage\<close> (lines 196--219).\<close>

definition handleWebMessage :: "WebToAppMessage \<Rightarrow> token_hook \<Rightarrow> token_hook" where
  "handleWebMessage message st =
     (case message of
        WEB_READY \<Rightarrow>
          (let st1 = st\<lparr>webReadyRef := True\<rparr> in
           if truthy (map_option access_token (session st1))
           then snd (sendTokenToWebView (map_option access_token (session st1)) True st1)
           else st1)
      | TOKEN_RECEIVED success \<Rightarrow>
          (case tokenReceivedResolverRef st of
             Some p \<Rightarrow> tokenReceivedResolver p (case success of Some b \<Rightarrow> b | None \<Rightarrow> True) st
           | None \<Rightarrow> st)
      | REQUEST_TOKEN_REFRESH \<Rightarrow> refreshAndSyncToken_call st
      | _ \<Rightarrow> st)"

text \<open>
  The effect of lines 318--350: the continuation of \<open>getSession()\<close> and the
  \<open>onAuthStateChange\<close> callback.
\<close>

definition getSession_then :: "Session option \<Rightarrow> token_hook \<Rightarrow> token_hook" where
  "getSession_then currentSession st =
     (let st1 = st\<lparr>session := currentSession, isReady := True\<rparr> in
      if truthy (map_option access_token currentSession)
      then snd (sendTokenToWebView (map_option access_token currentSession) False st1)
      else st1)"

definition onAuthStateChange :: "AuthChangeEvent \<Rightarrow> Session option \<Rightarrow> token_hook \<Rightarrow> token_hook" where
  "onAuthStateChange event newSession st =
     (let st1 = st\<lparr>session := newSession\<rparr>;
          st2 = (if event = SIGNED_IN \<or> event = TOKEN_REFRESHED
                 then st1\<lparr>lastSentTokenRef := None\<rparr> else st1)
      in snd (sendTokenToWebView (map_option access_token newSession) True st2))"

text \<open>
  \<open>signOut\<close> (lines 356--362) suspends at \<open>await supabase.auth.signOut()\<close>; there is
  no \<open>try\<close> around it, so a rejection of the provider call rejects \<open>signOut\<close> and the
  lines after the await do not run. \<open>signOut\<close> is the run with nothing in between.
\<close>

definition signOut_call :: "token_hook \<Rightarrow> token_hook" where
  "signOut_call st = perform AuthSignOut st"

definition signOut_resume :: "unit awaited \<Rightarrow> token_hook \<Rightarrow> string option \<times> token_hook" where
  "signOut_resume r st =
     (case r of
        Rejected e \<Rightarrow> (Some e, st)
      | Fulfilled _ \<Rightarrow>
          (None, snd (sendTokenToWebView None True
                        (st\<lparr>lastSentTokenRef := None, webReadyRef := False\<rparr>))))"


section \<open>The session hook (src/app/index.tsx, from line 340)\<close>

record session_hook = hook +
  sessionSetResolverRef :: "nat option"

text \<open>\<open>sendSessionToWebView\<close> (lines 410--440) and \<open>clearSessionInWebView\<close> (445--464).\<close>

definition sendSessionToWebView :: "string \<Rightarrow> string \<Rightarrow> session_hook \<Rightarrow> bool \<times> session_hook" where
  "sendSessionToWebView accessToken refreshToken st =
     (if \<not> webViewRef st then (False, st)
      else (True, perform (InjectJavaScript (SET_SESSION accessToken refreshToken)) st))"

definition clearSessionInWebView :: "session_hook \<Rightarrow> session_hook" where
  "clearSessionInWebView st =
     (if \<not> webViewRef st then st else perform (InjectJavaScript CLEAR_SESSION) st)"

text \<open>
  The closure stored in \<open>sessionSetResolverRef\<close> for the promise \<open>p\<close> (lines 490--494),
  the callback of its timer (lines 483--487), and the runtime firing an armed timer.
\<close>

definition sessionSetResolver :: "nat \<Rightarrow> bool \<Rightarrow> session_hook \<Rightarrow> session_hook" where
  "sessionSetResolver p success st =
     resolve p success ((clearTimeout p st)\<lparr>sessionSetResolverRef := None\<rparr>)"

definition sessionTimeoutCallback :: "nat \<Rightarrow> session_hook \<Rightarrow> session_hook" where
  "sessionTimeoutCallback p st = resolve p False (st\<lparr>sessionSetResolverRef := None\<rparr>)"

definition timerFires_session :: "nat \<Rightarrow> session_hook \<Rightarrow> session_hook" where
  "timerFires_session t st =
     (case timers st t of None \<Rightarrow> st | Some _ \<Rightarrow> sessionTimeoutCallback t (clearTimeout t st))"

text \<open>
  \<open>syncSessionToWebView\<close> (lines 469--510), an \<open>async\<close> function: with no session
  it sends the clear command and returns \<open>true\<close>, a promise that is fulfilled at
  once and has no timer; with a session it returns the confirmation promise, whose
  timer is armed with 5000 ms.
\<close>

definition syncSessionToWebView :: "Session option \<Rightarrow> session_hook \<Rightarrow> nat \<times> session_hook" where
  "syncSessionToWebView currentSession st =
     (case currentSession of
        None \<Rightarrow>
          (let st1 = clearSessionInWebView st
           in (fresh st1, resolve (fresh st1) True (st1\<lparr>fresh := Suc (fresh st1)\<rparr>)))
      | Some cur \<Rightarrow>
          (let st1 = (case sessionSetResolverRef st of
                        Some q \<Rightarrow> sessionSetResolver q False st
                      | None \<Rightarrow> st);
               (p, st2) = setTimeout 5000 st1;
               st3 = st2\<lparr>sessionSetResolverRef := Some p\<rparr>;
               (sent, st4) = sendSessionToWebView (access_token cur) (refresh_token cur) st3
           in if \<not> sent
              then (p, resolve p False ((clearTimeout p st4)\<lparr>sessionSetResolverRef := None\<rparr>))
              else (p, st4)))"

text \<open>
  \<open>refreshAndSyncSession\<close> (lines 515--533), split at the await of
  \<open>refreshSession()\<close> like its counterpart. The second await, on
  \<open>syncSessionToWebView\<close>, cannot reject and its value is not used.
\<close>

definition refreshAndSyncSession_call :: "session_hook \<Rightarrow> session_hook" where
  "refreshAndSyncSession_call st = perform AuthRefreshSession st"

definition refreshAndSyncSession_try ::
  "AuthResponse awaited \<Rightarrow> session_hook \<Rightarrow> string + session_hook" where
  "refreshAndSyncSession_try r st =
     (case r of
        Rejected e \<Rightarrow> Inl e
      | Fulfilled resp \<Rightarrow>
          (case resp_error resp of
             Some msg \<Rightarrow> Inr (perform (ConsoleError msg) st)
           | None \<Rightarrow>
               (case resp_session resp of
                  Some s \<Rightarrow> Inr (snd (syncSessionToWebView (Some s) st))
                | None \<Rightarrow> Inr st)))"

definition refreshAndSyncSession_resume ::
  "AuthResponse awaited \<Rightarrow> session_hook \<Rightarrow> string option \<times> session_hook" where
  "refreshAndSyncSession_resume r st =
     (case refreshAndSyncSession_try r st of
        Inl e \<Rightarrow> (None, perform (ConsoleError e) st)
      | Inr st' \<Rightarrow> (None, st'))"

text \<open>\<open>handleWebMessage\<close> (lines 539--571).\<close>

definition handleWebMessage_session :: "WebToAppMessage \<Rightarrow> session_hook \<Rightarrow> session_hook" where
  "handleWebMessage_session message st =
     (case message of
        WEB_READY \<Rightarrow>
          (let st1 = st\<lparr>webReadyRef := True\<rparr> in
           case session st1 of
             Some s \<Rightarrow> snd (syncSessionToWebView (Some s) st1)
           | None \<Rightarrow> st1)
      | SESSION_SET success \<Rightarrow>
          (case sessionSetResolverRef st of
             Some p \<Rightarrow> sessionSetResolver p success st
           | None \<Rightarrow> st)
      | REQUEST_SESSION_REFRESH \<Rightarrow> refreshAndSyncSession_call st
      | SESSION_EXPIRED \<Rightarrow> perform AuthSignOut st
      | _ \<Rightarrow> st)"

text \<open>Lines 670--694: the continuation of \<open>getSession()\<close> and the change callback.\<close>

definition getSession_then_session :: "Session option \<Rightarrow> session_hook \<Rightarrow> session_hook" where
  "getSession_then_session currentSession st = st\<lparr>session := currentSession, isReady := True\<rparr>"

definition onAuthStateChange_session ::
  "AuthChangeEvent \<Rightarrow> Session option \<Rightarrow> session_hook \<Rightarrow> session_hook" where
  "onAuthStateChange_session event newSession st =
     (let st1 = st\<lparr>session := newSession\<rparr>
      in if webReadyRef st1 then snd (syncSessionToWebView newSession st1) else st1)"

text \<open>\<open>signOut\<close> (lines 700--705): everything happens before the await.\<close>

definition signOut_call_session :: "session_hook \<Rightarrow> session_hook" where
  "signOut_call_session st =
     perform AuthSignOut ((clearSessionInWebView st)\<lparr>webReadyRef := False\<rparr>)"

definition signOut_resume_session :: "unit awaited \<Rightarrow> session_hook \<Rightarrow> string option \<times> session_hook" where
  "signOut_resume_session r st = (case r of Rejected e \<Rightarrow> (Some e, st) | Fulfilled _ \<Rightarrow> (None, st))"


section \<open>First render, and provider failures\<close>

text \<open>
  The state of each hook after its first render: \<open>useState(null)\<close>,
  \<open>useState(false)\<close>, \<open>useRef(null)\<close>, \<open>useRef(false)\<close>, no WebView mounted yet (the
  screen renders the loading indicator until \<open>isReady\<close>).
\<close>

definition init_token_hook :: token_hook where
  "init_token_hook =
     \<lparr>webViewRef = False, session = None, isReady = False, isLoggingIn = False,
      webReadyRef = False, timers = Map.empty, promises = Map.empty, fresh = 0, effects = [],
      lastSentTokenRef = None, tokenReceivedResolverRef = None\<rparr>"

definition init_session_hook :: session_hook where
  "init_session_hook =
     \<lparr>webViewRef = False, session = None, isReady = False, isLoggingIn = False,
      webReadyRef = False, timers = Map.empty, promises = Map.empty, fresh = 0, effects = [],
      sessionSetResolverRef = None\<rparr>"

text \<open>
  A refresh fails when the provider call rejects or resolves with an \<open>error\<close>; the
  value is the message that is logged.
\<close>

definition refresh_failure :: "AuthResponse awaited \<Rightarrow> string option" where
  "refresh_failure r = (case r of Rejected e \<Rightarrow> Some e | Fulfilled resp \<Rightarrow> resp_error resp)"

section \<open>Runs of the hooks\<close>

text \<open>
  What can happen to a hook between two renders: the WebView is mounted or unmounted,
  the initial \<open>getSession()\<close> resolves, the provider notifies a change, content sends
  a message, a suspended \<open>refreshAndSync...\<close> or \<open>signOut\<close> resumes, \<open>signOut\<close> is
  called, an armed timer fires, or one of the hook's own functions is called directly
  (\<open>Call\<close>; the functions differ between the two versions). A run applies any
  sequence of these to the state of the first render; resumptions are not required to
  follow their calls, so the runs include every execution of the program.
\<close>

datatype token_call =
    SyncTokenToWebView bool
  | SendTokenAndWaitConfirmation "string option" nat

datatype session_call =
    SyncSessionToWebView "Session option"

datatype 'c hook_event =
    Mount
  | Unmount
  | GetSessionThen "Session option"
  | AuthStateChange AuthChangeEvent "Session option"
  | WebMessage WebToAppMessage
  | RefreshResumes "AuthResponse awaited"
  | SignOutCalled
  | SignOutResumes "unit awaited"
  | TimerFires nat
  | Call 'c

fun token_step :: "token_call hook_event \<Rightarrow> token_hook \<Rightarrow> token_hook" where
  "token_step Mount st = st\<lparr>webViewRef := True\<rparr>"
| "token_step Unmount st = st\<lparr>webViewRef := False\<rparr>"
| "token_step (GetSessionThen s) st = getSession_then s st"
| "token_step (AuthStateChange e s) st = onAuthStateChange e s st"
| "token_step (WebMessage m) st = handleWebMessage m st"
| "token_step (RefreshResumes r) st = snd (refreshAndSyncToken_resume r st)"
| "token_step SignOutCalled st = signOut_call st"
| "token_step (SignOutResumes r) st = snd (signOut_resume r st)"
| "token_step (TimerFires t) st = timerFires t st"
| "token_step (Call (SyncTokenToWebView force)) st = syncTokenToWebView force st"
| "token_step (Call (SendTokenAndWaitConfirmation token timeout)) st =
     snd (sendTokenAndWaitConfirmation token timeout st)"

fun session_step :: "session_call hook_event \<Rightarrow> session_hook \<Rightarrow> session_hook" where
  "session_step Mount st = st\<lparr>webViewRef := True\<rparr>"
| "session_step Unmount st = st\<lparr>webViewRef := False\<rparr>"
| "session_step (GetSessionThen s) st = getSession_then_session s st"
| "session_step (AuthStateChange e s) st = onAuthStateChange_session e s st"
| "session_step (WebMessage m) st = handleWebMessage_session m st"
| "session_step (RefreshResumes r) st = snd (refreshAndSyncSession_resume r st)"
| "session_step SignOutCalled st = signOut_call_session st"
| "session_step (SignOutResumes r) st = snd (signOut_resume_session r st)"
| "session_step (TimerFires t) st = timerFires_session t st"
| "session_step (Call (SyncSessionToWebView s)) st = snd (syncSessionToWebView s st)"

definition token_run :: "token_call hook_event list \<Rightarrow> token_hook" where
  "token_run events = foldl (\<lambda>st e. token_step e st) init_token_hook events"

definition session_run :: "session_call hook_event list \<Rightarrow> session_hook" where
  "session_run events = foldl (\<lambda>st e. session_step e st) init_session_hook events"

text \<open>
  The confirmation promises that have been created and are not settled yet, and the
  property that the resolver slot accounts for all waiting: handles from \<open>fresh\<close> on
  are unused, the armed timers are exactly the timer of the promise in the slot, and
  the unsettled promises are exactly the promise in the slot.
\<close>

definition pending :: "'a hook_scheme \<Rightarrow> nat set" where
  "pending st = {h. h < fresh st \<and> promises st h = None}"

definition single_waiter :: "nat option \<Rightarrow> 'a hook_scheme \<Rightarrow> bool" where
  "single_waiter slot st \<longleftrightarrow>
     (\<forall>h. fresh st \<le> h \<longrightarrow> timers st h = None \<and> promises st h = None)
   \<and> (\<forall>h. timers st h \<noteq> None \<longleftrightarrow> slot = Some h)
   \<and> (\<forall>h. h \<in> pending st \<longleftrightarrow> slot = Some h)"

section \<open>Authorization callback URLs\<close>








section \<open>Route classification\<close>

text \<open>
  Claim C6. For every navigation event, whatever the previous screen state, the platform
  parser and the tab-route table: a URL the parser rejects is classified with path
  \<open>/\<close>; \<open>isHome\<close> holds exactly when the path is \<open>/\<close>; \<open>canGoBack\<close> is the content
  surface's raw capability masked by \<open>isHome\<close>, so \<open>isHome\<close> implies that \<open>canGoBack\<close>
  is false.
\<close>

theorem handleNavigation_classifies:
  "(let r = routeInfo (handleNavigation IS_DEV_ANDROID newURL isTabRoute_fn navState scr) in
      (newURL (nav_url navState) = None \<longrightarrow> path r = ''/'')
    \<and> path r = extractPath newURL (nav_url navState)
    \<and> (isHome r \<longleftrightarrow> path r = ''/'')
    \<and> (canGoBack r \<longleftrightarrow> nav_canGoBack navState \<and> \<not> isHome r)
    \<and> (isHome r \<longrightarrow> \<not> canGoBack r)
    \<and> isTabRoute r = isTabRoute_fn (path r))"
  by (simp add: handleNavigation_def extractPath_def Let_def)

theorem handleNavigation_classifies_witness:
  "(\<lambda>u::string. None :: URL option) ''not a url'' = None
   \<and> path (routeInfo (handleNavigation False (\<lambda>u. None) (\<lambda>p. p = ''/'')
         \<lparr>nav_url = ''not a url'', nav_canGoBack = True\<rparr>
         \<lparr>routeInfo = \<lparr>path = ''/login'', isTabRoute = False, isHome = False, canGoBack = True\<rparr>,
          url = ''https://app/login''\<rparr>)) = ''/''
   \<and> isHome (routeInfo (handleNavigation False (\<lambda>u. None) (\<lambda>p. p = ''/'')
         \<lparr>nav_url = ''not a url'', nav_canGoBack = True\<rparr>
         \<lparr>routeInfo = \<lparr>path = ''/login'', isTabRoute = False, isHome = False, canGoBack = True\<rparr>,
          url = ''https://app/login''\<rparr>))
   \<and> \<not> canGoBack (routeInfo (handleNavigation False (\<lambda>u. None) (\<lambda>p. p = ''/'')
         \<lparr>nav_url = ''not a url'', nav_canGoBack = True\<rparr>
         \<lparr>routeInfo = \<lparr>path = ''/login'', isTabRoute = False, isHome = False, canGoBack = True\<rparr>,
          url = ''https://app/login''\<rparr>))"
  using handleNavigation_classifies [where newURL = "\<lambda>u. None"
      and navState = "\<lparr>nav_url = ''not a url'', nav_canGoBack = True\<rparr>"
      and IS_DEV_ANDROID = False and isTabRoute_fn = "\<lambda>p. p = ''/''"
      and scr = "\<lparr>routeInfo = \<lparr>path = ''/login'', isTabRoute = False, isHome = False, canGoBack = True\<rparr>,
        url = ''https://app/login''\<rparr>"]
  by (simp add: Let_def)

section \<open>Back-press decisions\<close>

text \<open>
  Claim C5. On the targeted platform the rules are tried in order and the first that
  matches decides: (1) not a tab root and content can go back: \<open>goBack\<close> on the
  content surface, consumed; (2) a tab root other than home: \<open>NAVIGATE_HOME\<close> through
  the command channel, consumed, whatever \<open>canGoBack\<close> says; (3) otherwise exit when
  the previous recorded press is less than the debounce window ago, else record this
  press, show the notice and consume. Off the platform nothing happens and the event
  is left to the default behaviour. Calls on the content surface reach it when one is
  mounted.
\<close>

theorem handleBackPress_decision_table:
  "(\<not> IS_ANDROID \<longrightarrow>
      handleBackPress IS_ANDROID delay webView info now prev = (False, [], prev))
 \<and> (IS_ANDROID \<and> \<not> isTabRoute info \<and> canGoBack info \<longrightarrow>
      handleBackPress IS_ANDROID delay webView info now prev
        = (True, (if webView then [GoBack] else []), prev))
 \<and> (IS_ANDROID \<and> isTabRoute info \<and> \<not> isHome info \<longrightarrow>
      handleBackPress IS_ANDROID delay webView info now prev
        = (True, (if webView then [InjectJavaScript (Bridge NAVIGATE_HOME)] else []), prev))
 \<and> (IS_ANDROID \<and> \<not> (\<not> isTabRoute info \<and> canGoBack info) \<and> \<not> (isTabRoute info \<and> \<not> isHome info)
      \<and> now - prev < delay \<longrightarrow>
      handleBackPress IS_ANDROID delay webView info now prev = (True, [ExitApp], prev))
 \<and> (IS_ANDROID \<and> \<not> (\<not> isTabRoute info \<and> canGoBack info) \<and> \<not> (isTabRoute info \<and> \<not> isHome info)
      \<and> \<not> now - prev < delay \<longrightarrow>
      handleBackPress IS_ANDROID delay webView info now prev = (True, [ToastShow], now))"
  by (simp add: handleBackPress_def navigateHome_def sendCommand_def showExitToast_def)

theorem handleBackPress_decision_table_witness:
  "handleBackPress False 2000 True
      \<lparr>path = ''/ai/detail'', isTabRoute = False, isHome = False, canGoBack = True\<rparr> 5000 0
     = (False, [], 0)
 \<and> handleBackPress True 2000 True
      \<lparr>path = ''/ai/detail'', isTabRoute = False, isHome = False, canGoBack = True\<rparr> 5000 0
     = (True, [GoBack], 0)
 \<and> handleBackPress True 2000 True
      \<lparr>path = ''/ai'', isTabRoute = True, isHome = False, canGoBack = True\<rparr> 5000 0
     = (True, [InjectJavaScript (Bridge NAVIGATE_HOME)], 0)
 \<and> handleBackPress True 2000 True
      \<lparr>path = ''/'', isTabRoute = True, isHome = True, canGoBack = False\<rparr> 5000 4000
     = (True, [ExitApp], 4000)
 \<and> handleBackPress True 2000 True
      \<lparr>path = ''/'', isTabRoute = True, isHome = True, canGoBack = False\<rparr> 5000 0
     = (True, [ToastShow], 5000)"
  using
    handleBackPress_decision_table [where IS_ANDROID = False and delay = 2000 and webView = True
      and info = "\<lparr>path = ''/ai/detail'', isTabRoute = False, isHome = False, canGoBack = True\<rparr>"
      and now = 5000 and prev = 0]
    handleBackPress_decision_table [where IS_ANDROID = True and delay = 2000 and webView = True
      and info = "\<lparr>path = ''/ai/detail'', isTabRoute = False, isHome = False, canGoBack = True\<rparr>"
      and now = 5000 and prev = 0]
    handleBackPress_decision_table [where IS_ANDROID = True and delay = 2000 and webView = True
      and info = "\<lparr>path = ''/ai'', isTabRoute = True, isHome = False, canGoBack = True\<rparr>"
      and now = 5000 and prev = 0]
    handleBackPress_decision_table [where IS_ANDROID = True and delay = 2000 and webView = True
      and info = "\<lparr>path = ''/'', isTabRoute = True, isHome = True, canGoBack = False\<rparr>"
      and now = 5000 and prev = 4000]
    handleBackPress_decision_table [where IS_ANDROID = True and delay = 2000 and webView = True
      and info = "\<lparr>path = ''/'', isTabRoute = True, isHome = True, canGoBack = False\<rparr>"
      and now = 5000 and prev = 0]
  by simp

section \<open>Token synchronisation\<close>

text \<open>
  Claim C3, as the code has it. \<open>sendTokenToWebView(token, force)\<close>: with no content
  surface mounted nothing is sent and the result is false; with one mounted, an unforced
  call whose token equals \<open>lastSentTokenRef\<close> sends nothing and returns false, and this
  holds for the null token too (a clear is deduplicated like any other value); in every
  other case \<open>lastSentTokenRef\<close> becomes the token, one \<open>SET_TOKEN\<close> command is
  injected (carrying null for a null or empty token) and the result is true. The result
  is true exactly when a command was injected, and the second of two unforced calls in a
  row with the same token never sends.
\<close>

theorem sendTokenToWebView_cases:
  "(\<not> webViewRef st \<longrightarrow> sendTokenToWebView token force st = (False, st))
 \<and> (webViewRef st \<and> \<not> force \<and> lastSentTokenRef st = token \<longrightarrow>
       sendTokenToWebView token force st = (False, st))
 \<and> (webViewRef st \<and> (force \<or> lastSentTokenRef st \<noteq> token) \<longrightarrow>
       sendTokenToWebView token force st =
         (True, st\<lparr>effects := effects st
                      @ [InjectJavaScript (SET_TOKEN (if truthy token then token else None))],
                   lastSentTokenRef := token\<rparr>))
 \<and> (fst (sendTokenToWebView token force st) \<longleftrightarrow>
       effects (snd (sendTokenToWebView token force st)) \<noteq> effects st)
 \<and> \<not> fst (sendTokenToWebView token False (snd (sendTokenToWebView token False st)))
 \<and> effects (snd (sendTokenToWebView token False (snd (sendTokenToWebView token False st))))
     = effects (snd (sendTokenToWebView token False st))"
  by (auto simp add: sendTokenToWebView_def perform_def)

theorem sendTokenToWebView_cases_witness:
  "\<not> webViewRef init_token_hook
 \<and> sendTokenToWebView (Some ''jwt'') True init_token_hook = (False, init_token_hook)
 \<and> webViewRef (init_token_hook\<lparr>webViewRef := True, lastSentTokenRef := Some ''jwt''\<rparr>)
 \<and> sendTokenToWebView (Some ''jwt'') False
      (init_token_hook\<lparr>webViewRef := True, lastSentTokenRef := Some ''jwt''\<rparr>)
     = (False, init_token_hook\<lparr>webViewRef := True, lastSentTokenRef := Some ''jwt''\<rparr>)
 \<and> sendTokenToWebView (Some ''jwt'') False (init_token_hook\<lparr>webViewRef := True\<rparr>)
     = (True, init_token_hook\<lparr>webViewRef := True,
          effects := [InjectJavaScript (SET_TOKEN (Some ''jwt''))],
          lastSentTokenRef := Some ''jwt''\<rparr>)"
  using
    sendTokenToWebView_cases [where st = init_token_hook and token = "Some ''jwt''" and force = True]
    sendTokenToWebView_cases [where st = "init_token_hook\<lparr>webViewRef := True, lastSentTokenRef := Some ''jwt''\<rparr>"
      and token = "Some ''jwt''" and force = False]
    sendTokenToWebView_cases [where st = "init_token_hook\<lparr>webViewRef := True\<rparr>"
      and token = "Some ''jwt''" and force = False]
  by (simp add: init_token_hook_def truthy_def)

text \<open>
  The claim as the specification words it fails on the clear: right after the surface is
  mounted, an unforced \<open>sendTokenToWebView(null)\<close> returns false and injects nothing,
  because \<open>lastSentTokenRef\<close> is still null.
\<close>

theorem clear_is_deduplicated:
  "fst (sendTokenToWebView None False (init_token_hook\<lparr>webViewRef := True\<rparr>)) = False
 \<and> effects (snd (sendTokenToWebView None False (init_token_hook\<lparr>webViewRef := True\<rparr>))) = []"
  by (simp add: sendTokenToWebView_def init_token_hook_def)

section \<open>Sending with no content surface mounted\<close>

text \<open>
  Claim C8, as the code has it. With no content surface mounted every send is a no-op:
  \<open>sendCommand\<close> injects nothing, \<open>sendTokenToWebView\<close> and \<open>sendSessionToWebView\<close>
  leave the state as it is and return false, \<open>clearSessionInWebView\<close> leaves the state as
  it is. Only the two hook functions report the failure; \<open>sendCommand\<close> and
  \<open>clearSessionInWebView\<close> return nothing.
\<close>

theorem detached_send_is_noop:
  "(\<not> webView \<longrightarrow> sendCommand webView command = ((), []))
 \<and> (\<not> webViewRef st \<longrightarrow> sendTokenToWebView token force st = (False, st))
 \<and> (\<not> webViewRef st' \<longrightarrow>
       sendSessionToWebView accessToken refreshToken st' = (False, st')
     \<and> clearSessionInWebView st' = st')"
  by (simp add: sendCommand_def sendTokenToWebView_def sendSessionToWebView_def
      clearSessionInWebView_def)

theorem detached_send_is_noop_witness:
  "sendCommand False (NAVIGATE_TO ''/ai'') = ((), [])
 \<and> \<not> webViewRef init_token_hook
 \<and> sendTokenToWebView None True init_token_hook = (False, init_token_hook)
 \<and> \<not> webViewRef init_session_hook
 \<and> sendSessionToWebView ''a'' ''r'' init_session_hook = (False, init_session_hook)
 \<and> clearSessionInWebView init_session_hook = init_session_hook"
  using detached_send_is_noop [where webView = False and command = "NAVIGATE_TO ''/ai''"
      and st = init_token_hook and token = None and force = True
      and st' = init_session_hook and accessToken = "''a''" and refreshToken = "''r''"]
  by (simp add: init_token_hook_def init_session_hook_def)

text \<open>
  The failure is not always reported as a boolean: \<open>sendCommand\<close> returns the same
  (unit) value whether or not the command was injected, and in the session hook
  \<open>syncSessionToWebView(null)\<close> with no surface mounted injects nothing and yet its
  promise is fulfilled with true.
\<close>

theorem send_failure_not_reported:
  "fst (sendCommand False NAVIGATE_HOME) = fst (sendCommand True NAVIGATE_HOME)
 \<and> snd (sendCommand False NAVIGATE_HOME) = []
 \<and> snd (sendCommand True NAVIGATE_HOME) = [InjectJavaScript (Bridge NAVIGATE_HOME)]
 \<and> promises (snd (syncSessionToWebView None init_session_hook))
      (fst (syncSessionToWebView None init_session_hook)) = Some True
 \<and> effects (snd (syncSessionToWebView None init_session_hook)) = []"
  by (simp add: sendCommand_def syncSessionToWebView_def clearSessionInWebView_def
      init_session_hook_def resolve_def Let_def)

section \<open>Refresh requested by content\<close>

text \<open>
  Claim C9. \<open>refreshAndSyncToken\<close> and \<open>refreshAndSyncSession\<close> never reject, however
  the provider call ends. When the refresh fails (the call rejects, or resolves with an
  error) the only thing that happens after the provider call is one \<open>console.error\<close>
  with the message: the cached session, the refs, the timers and the promises are
  untouched, no command is injected and the provider is not asked to sign out.
\<close>

theorem refresh_failure_swallowed:
  "fst (refreshAndSyncToken_resume r st) = None
 \<and> fst (refreshAndSyncSession_resume r st') = None
 \<and> (refresh_failure r = Some msg \<longrightarrow>
       refreshAndSyncToken_resume r st = (None, st\<lparr>effects := effects st @ [ConsoleError msg]\<rparr>)
     \<and> refreshAndSyncSession_resume r st'
         = (None, st'\<lparr>effects := effects st' @ [ConsoleError msg]\<rparr>))
 \<and> refreshAndSyncToken_call st = st\<lparr>effects := effects st @ [AuthRefreshSession]\<rparr>
 \<and> refreshAndSyncSession_call st' = st'\<lparr>effects := effects st' @ [AuthRefreshSession]\<rparr>"
  by (auto simp add: refreshAndSyncToken_resume_def refreshAndSyncToken_try_def
      refreshAndSyncSession_resume_def refreshAndSyncSession_try_def refresh_failure_def
      refreshAndSyncToken_call_def refreshAndSyncSession_call_def perform_def
      split: awaited.splits option.splits sum.splits)

theorem refresh_failure_swallowed_witness:
  "refresh_failure (Rejected ''network'') = Some ''network''
 \<and> refreshAndSyncToken_resume (Rejected ''network'') (refreshAndSyncToken_call init_token_hook)
     = (None, init_token_hook\<lparr>effects := [AuthRefreshSession, ConsoleError ''network'']\<rparr>)
 \<and> refresh_failure (Fulfilled \<lparr>resp_error = Some ''expired'', resp_session = None\<rparr>) = Some ''expired''
 \<and> refreshAndSyncSession_resume (Fulfilled \<lparr>resp_error = Some ''expired'', resp_session = None\<rparr>)
       (refreshAndSyncSession_call init_session_hook)
     = (None, init_session_hook\<lparr>effects := [AuthRefreshSession, ConsoleError ''expired'']\<rparr>)"
  using
    refresh_failure_swallowed [where r = "Rejected ''network''" and msg = "''network''"
      and st = "refreshAndSyncToken_call init_token_hook" and st' = init_session_hook]
    refresh_failure_swallowed [where r = "Fulfilled \<lparr>resp_error = Some ''expired'', resp_session = None\<rparr>"
      and msg = "''expired''"
      and st = init_token_hook and st' = "refreshAndSyncSession_call init_session_hook"]
    refresh_failure_swallowed [where st = init_token_hook and st' = init_session_hook]
  by (simp add: refresh_failure_def init_token_hook_def init_session_hook_def)

section \<open>Sign-out\<close>



section \<open>Credential-change notifications\<close>




section \<open>The resolver slot\<close>

text \<open>
  In every run of either hook the resolver slot accounts for all waiting
  (\<open>single_waiter\<close>). The lemmas below give, under that invariant, the state each
  operation on the slot leaves, and show that every step of a run keeps the invariant.
\<close>

lemma single_waiter_SomeD:
  "single_waiter (Some q) st \<Longrightarrow> q < fresh st \<and> promises st q = None \<and> timers st q \<noteq> None"
  by (simp add: single_waiter_def pending_def)

lemma single_waiter_fresh:
  "single_waiter slot st \<Longrightarrow> promises st (fresh st) = None \<and> timers st (fresh st) = None"
  by (simp add: single_waiter_def)

lemma tokenReceivedResolver_eq:
  assumes "single_waiter (Some q) st"
  shows "tokenReceivedResolver q v st
           = st\<lparr>timers := (timers st)(q := None), promises := (promises st)(q \<mapsto> v),
                 tokenReceivedResolverRef := None\<rparr>"
  using single_waiter_SomeD [OF assms]
  by (simp add: tokenReceivedResolver_def resolve_def clearTimeout_def)

lemma sendTokenAndWaitConfirmation_eq:
  assumes "single_waiter (tokenReceivedResolverRef st) st"
  shows "sendTokenAndWaitConfirmation token ms st =
     (fresh st,
      st\<lparr>timers := (if webViewRef st then [fresh st \<mapsto> ms] else Map.empty),
         promises := (if webViewRef st then
                        (case tokenReceivedResolverRef st of None \<Rightarrow> promises st
                         | Some q \<Rightarrow> (promises st)(q \<mapsto> False))
                      else (case tokenReceivedResolverRef st of None \<Rightarrow> promises st
                         | Some q \<Rightarrow> (promises st)(q \<mapsto> False))(fresh st \<mapsto> False)),
         fresh := Suc (fresh st),
         effects := effects st @ (if webViewRef st
            then [InjectJavaScript (SET_TOKEN (if truthy token then token else None))] else []),
         lastSentTokenRef := (if webViewRef st then token else lastSentTokenRef st),
         tokenReceivedResolverRef := (if webViewRef st then Some (fresh st) else None)\<rparr>)"
proof (cases "tokenReceivedResolverRef st")
  case None
  with assms have sw: "single_waiter None st" by simp
  then have t: "timers st = Map.empty" by (auto simp add: single_waiter_def)
  from single_waiter_fresh [OF sw] have f: "promises st (fresh st) = None" by simp
  show ?thesis using None t f
    by (simp add: sendTokenAndWaitConfirmation_def setTimeout_def sendTokenToWebView_def
        perform_def resolve_def clearTimeout_def Let_def)
next
  case (Some q)
  with assms have sw: "single_waiter (Some q) st" by simp
  from single_waiter_SomeD [OF sw] have q: "q < fresh st" "promises st q = None" by simp_all
  from sw have t: "(timers st)(q := None) = Map.empty" by (auto simp add: single_waiter_def fun_eq_iff)
  from single_waiter_fresh [OF sw] have f: "promises st (fresh st) = None" by simp
  show ?thesis using Some q t f
    by (simp add: sendTokenAndWaitConfirmation_def tokenReceivedResolver_eq [OF sw]
        setTimeout_def sendTokenToWebView_def
        perform_def resolve_def clearTimeout_def Let_def)
qed

lemma sendTokenToWebView_frame:
  "timers (snd (sendTokenToWebView token force st)) = timers st"
  "promises (snd (sendTokenToWebView token force st)) = promises st"
  "fresh (snd (sendTokenToWebView token force st)) = fresh st"
  "tokenReceivedResolverRef (snd (sendTokenToWebView token force st)) = tokenReceivedResolverRef st"
  by (simp_all add: sendTokenToWebView_def perform_def)

lemma timerFires_eq:
  assumes "single_waiter (tokenReceivedResolverRef st) st"
  shows "timerFires t st =
     (if tokenReceivedResolverRef st = Some t
      then st\<lparr>timers := (timers st)(t := None), promises := (promises st)(t \<mapsto> False),
              tokenReceivedResolverRef := None\<rparr>
      else st)"
proof (cases "timers st t")
  case None
  with assms have "tokenReceivedResolverRef st \<noteq> Some t" by (metis single_waiter_def option.distinct(1))
  with None show ?thesis by (simp add: timerFires_def)
next
  case (Some d)
  with assms have slot: "tokenReceivedResolverRef st = Some t" by (auto simp add: single_waiter_def)
  with assms have "single_waiter (Some t) st" by simp
  from single_waiter_SomeD [OF this] have "promises st t = None" by simp
  with Some slot show ?thesis
    by (simp add: timerFires_def tokenTimeoutCallback_def resolve_def clearTimeout_def)
qed


lemma single_waiter_settled:
  assumes "single_waiter (Some q) st"
  shows "single_waiter None
     (st\<lparr>timers := (timers st)(q := None), promises := (promises st)(q \<mapsto> v),
         tokenReceivedResolverRef := None\<rparr>)"
  using assms by (auto simp add: single_waiter_def pending_def)

lemma token_step_single_waiter:
  assumes "single_waiter (tokenReceivedResolverRef st) st"
  shows "single_waiter (tokenReceivedResolverRef (token_step e st)) (token_step e st)"
proof (cases e)
  case Mount
  with assms show ?thesis by (simp add: single_waiter_def pending_def)
next
  case Unmount
  with assms show ?thesis by (simp add: single_waiter_def pending_def)
next
  case (GetSessionThen s)
  with assms show ?thesis
    by (simp add: getSession_then_def Let_def sendTokenToWebView_frame single_waiter_def pending_def)
next
  case (AuthStateChange ev s)
  with assms show ?thesis
    by (simp add: onAuthStateChange_def Let_def sendTokenToWebView_frame single_waiter_def pending_def)
next
  case (WebMessage m)
  show ?thesis
  proof (cases m)
    case WEB_READY
    with WebMessage assms show ?thesis
      by (simp add: handleWebMessage_def Let_def sendTokenToWebView_frame single_waiter_def pending_def)
  next
    case (TOKEN_RECEIVED success)
    show ?thesis
    proof (cases "tokenReceivedResolverRef st")
      case None
      with WebMessage TOKEN_RECEIVED assms show ?thesis by (simp add: handleWebMessage_def)
    next
      case (Some q)
      with assms have sw: "single_waiter (Some q) st" by simp
      from WebMessage TOKEN_RECEIVED Some single_waiter_settled [OF sw] show ?thesis
        by (simp add: handleWebMessage_def tokenReceivedResolver_eq [OF sw])
    qed
  next
    case REQUEST_TOKEN_REFRESH
    with WebMessage assms show ?thesis
      by (simp add: handleWebMessage_def refreshAndSyncToken_call_def perform_def
          single_waiter_def pending_def)
  qed (use WebMessage assms in \<open>simp_all add: handleWebMessage_def\<close>)
next
  case (RefreshResumes r)
  with assms show ?thesis
    by (simp add: refreshAndSyncToken_resume_def refreshAndSyncToken_try_def perform_def
        sendTokenToWebView_frame single_waiter_def pending_def
        split: awaited.splits option.splits)
next
  case SignOutCalled
  with assms show ?thesis by (simp add: signOut_call_def perform_def single_waiter_def pending_def)
next
  case (SignOutResumes r)
  with assms show ?thesis
    by (simp add: signOut_resume_def sendTokenToWebView_frame single_waiter_def pending_def
        split: awaited.splits)
next
  case (TimerFires t)
  show ?thesis
  proof (cases "tokenReceivedResolverRef st = Some t")
    case True
    with assms have sw: "single_waiter (Some t) st" by simp
    from TimerFires True single_waiter_settled [OF sw] show ?thesis
      by (simp add: timerFires_eq [OF assms])
  next
    case False
    with TimerFires assms show ?thesis by (simp add: timerFires_eq [OF assms])
  qed
next
  case (Call c)
  show ?thesis
  proof (cases c)
    case (SyncTokenToWebView force)
    with Call assms show ?thesis
      by (simp add: syncTokenToWebView_def sendTokenToWebView_frame single_waiter_def pending_def)
  next
    case (SendTokenAndWaitConfirmation token ms)
    have f: "promises st (fresh st) = None" using single_waiter_fresh [OF assms] by simp
    show ?thesis
    proof (cases "tokenReceivedResolverRef st")
      case None
      with Call SendTokenAndWaitConfirmation assms f show ?thesis
        by (auto simp add: sendTokenAndWaitConfirmation_eq [OF assms] single_waiter_def
            pending_def less_Suc_eq)
    next
      case (Some q)
      with assms have sw: "single_waiter (Some q) st" by simp
      from single_waiter_SomeD [OF sw] have q: "q < fresh st" by simp
      with Call SendTokenAndWaitConfirmation assms f Some show ?thesis
        by (auto simp add: sendTokenAndWaitConfirmation_eq [OF assms] single_waiter_def
            pending_def less_Suc_eq)
    qed
  qed
qed

lemma token_run_single_waiter:
  "single_waiter (tokenReceivedResolverRef (token_run es)) (token_run es)"
proof (induction es rule: rev_induct)
  case Nil
  show ?case by (simp add: token_run_def init_token_hook_def single_waiter_def pending_def)
next
  case (snoc e es)
  from token_step_single_waiter [OF snoc.IH, of e] show ?case by (simp add: token_run_def)
qed

lemma sessionSetResolver_eq:
  assumes "single_waiter (Some q) st"
  shows "sessionSetResolver q v st
           = st\<lparr>timers := (timers st)(q := None), promises := (promises st)(q \<mapsto> v),
                 sessionSetResolverRef := None\<rparr>"
  using single_waiter_SomeD [OF assms]
  by (simp add: sessionSetResolver_def resolve_def clearTimeout_def)

lemma syncSessionToWebView_None_eq:
  assumes "single_waiter (sessionSetResolverRef st) st"
  shows "syncSessionToWebView None st =
     (fresh st,
      st\<lparr>promises := (promises st)(fresh st \<mapsto> True),
         fresh := Suc (fresh st),
         effects := effects st @ (if webViewRef st then [InjectJavaScript CLEAR_SESSION] else [])\<rparr>)"
  using single_waiter_fresh [OF assms]
  by (simp add: syncSessionToWebView_def clearSessionInWebView_def perform_def resolve_def Let_def)

lemma syncSessionToWebView_Some_eq:
  assumes "single_waiter (sessionSetResolverRef st) st"
  shows "syncSessionToWebView (Some cur) st =
     (fresh st,
      st\<lparr>timers := (if webViewRef st then [fresh st \<mapsto> 5000] else Map.empty),
         promises := (if webViewRef st then
                        (case sessionSetResolverRef st of None \<Rightarrow> promises st
                         | Some q \<Rightarrow> (promises st)(q \<mapsto> False))
                      else (case sessionSetResolverRef st of None \<Rightarrow> promises st
                         | Some q \<Rightarrow> (promises st)(q \<mapsto> False))(fresh st \<mapsto> False)),
         fresh := Suc (fresh st),
         effects := effects st @ (if webViewRef st
            then [InjectJavaScript (SET_SESSION (access_token cur) (refresh_token cur))] else []),
         sessionSetResolverRef := (if webViewRef st then Some (fresh st) else None)\<rparr>)"
proof (cases "sessionSetResolverRef st")
  case None
  with assms have sw: "single_waiter None st" by simp
  then have t: "timers st = Map.empty" by (auto simp add: single_waiter_def)
  from single_waiter_fresh [OF sw] have f: "promises st (fresh st) = None" by simp
  show ?thesis using None t f
    by (simp add: syncSessionToWebView_def setTimeout_def sendSessionToWebView_def
        perform_def resolve_def clearTimeout_def Let_def)
next
  case (Some q)
  with assms have sw: "single_waiter (Some q) st" by simp
  from single_waiter_SomeD [OF sw] have q: "q < fresh st" "promises st q = None" by simp_all
  from sw have t: "(timers st)(q := None) = Map.empty"
    by (auto simp add: single_waiter_def fun_eq_iff)
  from single_waiter_fresh [OF sw] have f: "promises st (fresh st) = None" by simp
  show ?thesis using Some q t f
    by (simp add: syncSessionToWebView_def sessionSetResolver_eq [OF sw]
        setTimeout_def sendSessionToWebView_def
        perform_def resolve_def clearTimeout_def Let_def)
qed

lemma syncSessionToWebView_single_waiter:
  assumes "single_waiter (sessionSetResolverRef st) st"
  shows "single_waiter (sessionSetResolverRef (snd (syncSessionToWebView s st)))
           (snd (syncSessionToWebView s st))"
proof (cases s)
  case None
  with assms show ?thesis
    by (auto simp add: syncSessionToWebView_None_eq [OF assms] single_waiter_def pending_def
        less_Suc_eq)
next
  case (Some cur)
  have f: "promises st (fresh st) = None" using single_waiter_fresh [OF assms] by simp
  show ?thesis
  proof (cases "sessionSetResolverRef st")
    case None
    with Some assms f show ?thesis
      by (auto simp add: syncSessionToWebView_Some_eq [OF assms] single_waiter_def
          pending_def less_Suc_eq)
  next
    case (Some q)
    with assms have sw: "single_waiter (Some q) st" by simp
    from single_waiter_SomeD [OF sw] have q: "q < fresh st" by simp
    with \<open>s = Some cur\<close> assms f Some show ?thesis
      by (auto simp add: syncSessionToWebView_Some_eq [OF assms] single_waiter_def
          pending_def less_Suc_eq)
  qed
qed

lemma timerFires_session_eq:
  assumes "single_waiter (sessionSetResolverRef st) st"
  shows "timerFires_session t st =
     (if sessionSetResolverRef st = Some t
      then st\<lparr>timers := (timers st)(t := None), promises := (promises st)(t \<mapsto> False),
              sessionSetResolverRef := None\<rparr>
      else st)"
proof (cases "timers st t")
  case None
  with assms have "sessionSetResolverRef st \<noteq> Some t"
    by (metis single_waiter_def option.distinct(1))
  with None show ?thesis by (simp add: timerFires_session_def)
next
  case (Some d)
  with assms have slot: "sessionSetResolverRef st = Some t" by (auto simp add: single_waiter_def)
  with assms have "single_waiter (Some t) st" by simp
  from single_waiter_SomeD [OF this] have "promises st t = None" by simp
  with Some slot show ?thesis
    by (simp add: timerFires_session_def sessionTimeoutCallback_def resolve_def clearTimeout_def)
qed

lemma single_waiter_settled_session:
  assumes "single_waiter (Some q) st"
  shows "single_waiter None
     (st\<lparr>timers := (timers st)(q := None), promises := (promises st)(q \<mapsto> v),
         sessionSetResolverRef := None\<rparr>)"
  using assms by (auto simp add: single_waiter_def pending_def)

lemma session_step_single_waiter:
  assumes "single_waiter (sessionSetResolverRef st) st"
  shows "single_waiter (sessionSetResolverRef (session_step e st)) (session_step e st)"
proof (cases e)
  case Mount
  with assms show ?thesis by (simp add: single_waiter_def pending_def)
next
  case Unmount
  with assms show ?thesis by (simp add: single_waiter_def pending_def)
next
  case (GetSessionThen s)
  with assms show ?thesis
    by (simp add: getSession_then_session_def single_waiter_def pending_def)
next
  case (AuthStateChange ev s)
  have a: "single_waiter (sessionSetResolverRef (st\<lparr>session := s\<rparr>)) (st\<lparr>session := s\<rparr>)"
    using assms by (simp add: single_waiter_def pending_def)
  from AuthStateChange a syncSessionToWebView_single_waiter [OF a, of s] show ?thesis
    by (simp add: onAuthStateChange_session_def Let_def)
next
  case (WebMessage m)
  show ?thesis
  proof (cases m)
    case WEB_READY
    have a: "single_waiter (sessionSetResolverRef (st\<lparr>webReadyRef := True\<rparr>)) (st\<lparr>webReadyRef := True\<rparr>)"
      using assms by (simp add: single_waiter_def pending_def)
    from WebMessage WEB_READY a syncSessionToWebView_single_waiter [OF a] show ?thesis
      by (simp add: handleWebMessage_session_def Let_def split: option.splits)
  next
    case (SESSION_SET success)
    show ?thesis
    proof (cases "sessionSetResolverRef st")
      case None
      with WebMessage SESSION_SET assms show ?thesis by (simp add: handleWebMessage_session_def)
    next
      case (Some q)
      with assms have sw: "single_waiter (Some q) st" by simp
      from WebMessage SESSION_SET Some single_waiter_settled_session [OF sw] show ?thesis
        by (simp add: handleWebMessage_session_def sessionSetResolver_eq [OF sw])
    qed
  next
    case REQUEST_SESSION_REFRESH
    with WebMessage assms show ?thesis
      by (simp add: handleWebMessage_session_def refreshAndSyncSession_call_def perform_def
          single_waiter_def pending_def)
  next
    case SESSION_EXPIRED
    with WebMessage assms show ?thesis
      by (simp add: handleWebMessage_session_def perform_def single_waiter_def pending_def)
  qed (use WebMessage assms in \<open>simp_all add: handleWebMessage_session_def\<close>)
next
  case (RefreshResumes r)
  have p: "single_waiter (sessionSetResolverRef (perform x st)) (perform x st)" for x
    using assms by (simp add: perform_def single_waiter_def pending_def)
  from RefreshResumes assms p syncSessionToWebView_single_waiter [OF assms] show ?thesis
    by (simp add: refreshAndSyncSession_resume_def refreshAndSyncSession_try_def
        split: awaited.splits option.splits)
next
  case SignOutCalled
  with assms show ?thesis
    by (simp add: signOut_call_session_def clearSessionInWebView_def perform_def
        single_waiter_def pending_def)
next
  case (SignOutResumes r)
  with assms show ?thesis
    by (simp add: signOut_resume_session_def split: awaited.splits)
next
  case (TimerFires t)
  show ?thesis
  proof (cases "sessionSetResolverRef st = Some t")
    case True
    with assms have sw: "single_waiter (Some t) st" by simp
    from TimerFires True single_waiter_settled_session [OF sw] show ?thesis
      by (simp add: timerFires_session_eq [OF assms])
  next
    case False
    with TimerFires assms show ?thesis by (simp add: timerFires_session_eq [OF assms])
  qed
next
  case (Call c)
  then obtain s where "e = Call (SyncSessionToWebView s)" by (cases c) simp
  with syncSessionToWebView_single_waiter [OF assms, of s] show ?thesis by simp
qed

lemma session_run_single_waiter:
  "single_waiter (sessionSetResolverRef (session_run es)) (session_run es)"
proof (induction es rule: rev_induct)
  case Nil
  show ?case by (simp add: session_run_def init_session_hook_def single_waiter_def pending_def)
next
  case (snoc e es)
  from session_step_single_waiter [OF snoc.IH, of e] show ?case by (simp add: session_run_def)
qed

lemma pending_eq:
  assumes "single_waiter slot st"
  shows "pending st = set_option slot \<and> dom (timers st) = set_option slot"
proof -
  from assms have a: "(h \<in> pending st) = (slot = Some h)"
    and b: "(timers st h \<noteq> None) = (slot = Some h)" for h
    by (simp_all add: single_waiter_def)
  have "x \<in> pending st \<longleftrightarrow> x \<in> set_option slot" for x
    using a [of x] by (cases slot) auto
  moreover have "x \<in> dom (timers st) \<longleftrightarrow> x \<in> set_option slot" for x
    using b [of x] by (cases slot) auto
  ultimately show ?thesis by blast
qed

lemmas run_eval =
  token_run_def session_run_def init_token_hook_def init_session_hook_def
  sendTokenAndWaitConfirmation_def sendTokenToWebView_def tokenReceivedResolver_def
  tokenTimeoutCallback_def timerFires_def handleWebMessage_def
  syncSessionToWebView_def sendSessionToWebView_def clearSessionInWebView_def
  sessionSetResolver_def sessionTimeoutCallback_def timerFires_session_def
  handleWebMessage_session_def
  setTimeout_def clearTimeout_def resolve_def perform_def truthy_def Let_def


section \<open>Waiting for confirmation\<close>

text \<open>
  Claim C2, as the code has it. In every run of either hook at most one confirmation
  is pending: the unsettled confirmation promises and the armed timers are exactly the
  promise held in the resolver slot. When a promise \<open>q\<close> is pending, it is unsettled,
  and
  \<^item> a new send-and-await call that carries a token (token hook, null included) or a
    present session (session hook) returns a different promise and leaves \<open>q\<close>
    settled with false;
  \<^item> a confirmation message settles \<open>q\<close> with the \<open>success\<close> flag it carries (true
    when \<open>TOKEN_RECEIVED\<close> carries none) and empties the slot;
  \<^item> the timer of \<open>q\<close> firing settles \<open>q\<close> with false and empties the slot.
  None of these operations has an exceptional outcome.
\<close>

theorem at_most_one_pending_confirmation:
  fixes es :: "token_call hook_event list" and es' :: "session_call hook_event list"
  shows
  "pending (token_run es) = set_option (tokenReceivedResolverRef (token_run es))
 \<and> dom (timers (token_run es)) = set_option (tokenReceivedResolverRef (token_run es))
 \<and> (tokenReceivedResolverRef (token_run es) = Some q \<longrightarrow>
       promises (token_run es) q = None
     \<and> fst (sendTokenAndWaitConfirmation token ms (token_run es)) \<noteq> q
     \<and> promises (snd (sendTokenAndWaitConfirmation token ms (token_run es))) q = Some False
     \<and> promises (handleWebMessage (TOKEN_RECEIVED success) (token_run es)) q
         = Some (case success of Some b \<Rightarrow> b | None \<Rightarrow> True)
     \<and> tokenReceivedResolverRef (handleWebMessage (TOKEN_RECEIVED success) (token_run es)) = None
     \<and> promises (timerFires q (token_run es)) q = Some False
     \<and> tokenReceivedResolverRef (timerFires q (token_run es)) = None)
 \<and> pending (session_run es') = set_option (sessionSetResolverRef (session_run es'))
 \<and> dom (timers (session_run es')) = set_option (sessionSetResolverRef (session_run es'))
 \<and> (sessionSetResolverRef (session_run es') = Some q' \<longrightarrow>
       promises (session_run es') q' = None
     \<and> fst (syncSessionToWebView (Some cur) (session_run es')) \<noteq> q'
     \<and> promises (snd (syncSessionToWebView (Some cur) (session_run es'))) q' = Some False
     \<and> promises (handleWebMessage_session (SESSION_SET flag) (session_run es')) q' = Some flag
     \<and> sessionSetResolverRef (handleWebMessage_session (SESSION_SET flag) (session_run es')) = None
     \<and> promises (timerFires_session q' (session_run es')) q' = Some False
     \<and> sessionSetResolverRef (timerFires_session q' (session_run es')) = None)"
proof -
  let ?t = "token_run es" and ?s = "session_run es'"
  note it = token_run_single_waiter [of es] and iss = session_run_single_waiter [of es']
  have tok: "promises ?t q = None
     \<and> fst (sendTokenAndWaitConfirmation token ms ?t) \<noteq> q
     \<and> promises (snd (sendTokenAndWaitConfirmation token ms ?t)) q = Some False
     \<and> promises (handleWebMessage (TOKEN_RECEIVED success) ?t) q
         = Some (case success of Some b \<Rightarrow> b | None \<Rightarrow> True)
     \<and> tokenReceivedResolverRef (handleWebMessage (TOKEN_RECEIVED success) ?t) = None
     \<and> promises (timerFires q ?t) q = Some False
     \<and> tokenReceivedResolverRef (timerFires q ?t) = None"
    if slot: "tokenReceivedResolverRef ?t = Some q"
  proof -
    from it slot have sw: "single_waiter (Some q) ?t" by simp
    from single_waiter_SomeD [OF sw] have q: "q < fresh ?t" "promises ?t q = None" by simp_all
    from slot q show ?thesis
      by (simp add: sendTokenAndWaitConfirmation_eq [OF it] timerFires_eq [OF it]
          handleWebMessage_def tokenReceivedResolver_eq [OF sw])
  qed
  have ses: "promises ?s q' = None
     \<and> fst (syncSessionToWebView (Some cur) ?s) \<noteq> q'
     \<and> promises (snd (syncSessionToWebView (Some cur) ?s)) q' = Some False
     \<and> promises (handleWebMessage_session (SESSION_SET flag) ?s) q' = Some flag
     \<and> sessionSetResolverRef (handleWebMessage_session (SESSION_SET flag) ?s) = None
     \<and> promises (timerFires_session q' ?s) q' = Some False
     \<and> sessionSetResolverRef (timerFires_session q' ?s) = None"
    if slot: "sessionSetResolverRef ?s = Some q'"
  proof -
    from iss slot have sw: "single_waiter (Some q') ?s" by simp
    from single_waiter_SomeD [OF sw] have q: "q' < fresh ?s" "promises ?s q' = None" by simp_all
    from slot q show ?thesis
      by (simp add: syncSessionToWebView_Some_eq [OF iss] timerFires_session_eq [OF iss]
          handleWebMessage_session_def sessionSetResolver_eq [OF sw])
  qed
  from pending_eq [OF it] pending_eq [OF iss] tok ses show ?thesis by blast
qed

theorem at_most_one_pending_confirmation_witness:
  "tokenReceivedResolverRef
      (token_run [Mount, Call (SendTokenAndWaitConfirmation (Some ''jwt'') 3000)]) = Some 0
 \<and> promises (token_run [Mount, Call (SendTokenAndWaitConfirmation (Some ''jwt'') 3000)]) 0 = None
 \<and> promises (snd (sendTokenAndWaitConfirmation (Some ''jwt'') 3000
      (token_run [Mount, Call (SendTokenAndWaitConfirmation (Some ''jwt'') 3000)]))) 0 = Some False
 \<and> promises (handleWebMessage (TOKEN_RECEIVED None)
      (token_run [Mount, Call (SendTokenAndWaitConfirmation (Some ''jwt'') 3000)])) 0 = Some True
 \<and> promises (timerFires 0
      (token_run [Mount, Call (SendTokenAndWaitConfirmation (Some ''jwt'') 3000)])) 0 = Some False
 \<and> sessionSetResolverRef
      (session_run [Mount, Call (SyncSessionToWebView (Some \<lparr>access_token = ''jwt'', refresh_token = ''r''\<rparr>))])
     = Some 0
 \<and> promises (snd (syncSessionToWebView (Some \<lparr>access_token = ''jwt'', refresh_token = ''r''\<rparr>)
      (session_run [Mount, Call (SyncSessionToWebView (Some \<lparr>access_token = ''jwt'', refresh_token = ''r''\<rparr>))])))
      0 = Some False
 \<and> promises (handleWebMessage_session (SESSION_SET True)
      (session_run [Mount, Call (SyncSessionToWebView (Some \<lparr>access_token = ''jwt'', refresh_token = ''r''\<rparr>))]))
      0 = Some True
 \<and> promises (timerFires_session 0
      (session_run [Mount, Call (SyncSessionToWebView (Some \<lparr>access_token = ''jwt'', refresh_token = ''r''\<rparr>))]))
      0 = Some False"
  using at_most_one_pending_confirmation
    [where es = "[Mount, Call (SendTokenAndWaitConfirmation (Some ''jwt'') 3000)]" and q = 0
       and token = "Some ''jwt''" and ms = 3000 and success = None
       and es' = "[Mount, Call (SyncSessionToWebView (Some \<lparr>access_token = ''jwt'', refresh_token = ''r''\<rparr>))]"
       and q' = 0 and cur = "\<lparr>access_token = ''jwt'', refresh_token = ''r''\<rparr>" and flag = True]
  by (simp add: run_eval)


text \<open>
  Not every later call supersedes a pending one: in the session hook a call with no
  session only sends the clear command; its own promise (1) is fulfilled with true at
  once and the pending promise (0) stays pending. A confirmation that carries
  \<open>success = false\<close> settles the pending promise with false.
\<close>

theorem absent_session_does_not_supersede:
  "sessionSetResolverRef
      (session_run [Mount, Call (SyncSessionToWebView (Some \<lparr>access_token = ''jwt'', refresh_token = ''r''\<rparr>))])
     = Some 0
 \<and> promises (session_run [Mount, Call (SyncSessionToWebView (Some \<lparr>access_token = ''jwt'', refresh_token = ''r''\<rparr>))])
      0 = None
 \<and> fst (syncSessionToWebView None
      (session_run [Mount, Call (SyncSessionToWebView (Some \<lparr>access_token = ''jwt'', refresh_token = ''r''\<rparr>))]))
     = 1
 \<and> promises (snd (syncSessionToWebView None
      (session_run [Mount, Call (SyncSessionToWebView (Some \<lparr>access_token = ''jwt'', refresh_token = ''r''\<rparr>))])))
      0 = None
 \<and> promises (snd (syncSessionToWebView None
      (session_run [Mount, Call (SyncSessionToWebView (Some \<lparr>access_token = ''jwt'', refresh_token = ''r''\<rparr>))])))
      1 = Some True
 \<and> promises (handleWebMessage (TOKEN_RECEIVED (Some False))
      (token_run [Mount, Call (SendTokenAndWaitConfirmation (Some ''jwt'') 3000)])) 0 = Some False"
  by (simp add: run_eval)


section \<open>A send that fails inside a confirmation wait\<close>

text \<open>
  Claim C10, as the code has it. At the end of every run of either hook with no content
  surface mounted: a send-and-await call that carries a token (token hook, null
  included) or a present session (session hook) returns a new promise that is already
  settled with false; afterwards the resolver slot is empty, no timer is armed, no
  confirmation is pending, and nothing was injected. A call of the session hook with
  no session does not enter the wait: its new promise is fulfilled with true although
  nothing is injected, and everything else, the resolver slot, the timers and the
  other promises, is left as it was.
\<close>

theorem failed_send_resolves_false:
  fixes es :: "token_call hook_event list" and es' :: "session_call hook_event list"
  shows
  "(\<not> webViewRef (token_run es) \<longrightarrow>
       promises (token_run es) (fst (sendTokenAndWaitConfirmation token ms (token_run es))) = None
     \<and> promises (snd (sendTokenAndWaitConfirmation token ms (token_run es)))
          (fst (sendTokenAndWaitConfirmation token ms (token_run es))) = Some False
     \<and> tokenReceivedResolverRef (snd (sendTokenAndWaitConfirmation token ms (token_run es))) = None
     \<and> timers (snd (sendTokenAndWaitConfirmation token ms (token_run es))) = Map.empty
     \<and> pending (snd (sendTokenAndWaitConfirmation token ms (token_run es))) = {}
     \<and> effects (snd (sendTokenAndWaitConfirmation token ms (token_run es))) = effects (token_run es))
 \<and> (\<not> webViewRef (session_run es') \<longrightarrow>
       promises (session_run es') (fst (syncSessionToWebView (Some cur) (session_run es'))) = None
     \<and> promises (snd (syncSessionToWebView (Some cur) (session_run es')))
          (fst (syncSessionToWebView (Some cur) (session_run es'))) = Some False
     \<and> sessionSetResolverRef (snd (syncSessionToWebView (Some cur) (session_run es'))) = None
     \<and> timers (snd (syncSessionToWebView (Some cur) (session_run es'))) = Map.empty
     \<and> pending (snd (syncSessionToWebView (Some cur) (session_run es'))) = {}
     \<and> effects (snd (syncSessionToWebView (Some cur) (session_run es'))) = effects (session_run es'))
 \<and> (\<not> webViewRef (session_run es') \<longrightarrow>
       promises (session_run es') (fresh (session_run es')) = None
     \<and> syncSessionToWebView None (session_run es') =
         (fresh (session_run es'),
          (session_run es')\<lparr>promises := (promises (session_run es'))(fresh (session_run es') \<mapsto> True),
                             fresh := Suc (fresh (session_run es'))\<rparr>))"
proof -
  let ?t = "token_run es" and ?s = "session_run es'"
  let ?t' = "snd (sendTokenAndWaitConfirmation token ms ?t)"
  let ?s' = "snd (syncSessionToWebView (Some cur) ?s)"
  note it = token_run_single_waiter [of es] and iss = session_run_single_waiter [of es']
  have "single_waiter (tokenReceivedResolverRef (token_run (es @ [Call (SendTokenAndWaitConfirmation token ms)])))
       (token_run (es @ [Call (SendTokenAndWaitConfirmation token ms)]))"
    by (rule token_run_single_waiter)
  then have it': "single_waiter (tokenReceivedResolverRef ?t') ?t'" by (simp add: token_run_def)
  have "single_waiter (sessionSetResolverRef (session_run (es' @ [Call (SyncSessionToWebView (Some cur))])))
       (session_run (es' @ [Call (SyncSessionToWebView (Some cur))]))"
    by (rule session_run_single_waiter)
  then have iss': "single_waiter (sessionSetResolverRef ?s') ?s'" by (simp add: session_run_def)
  have ft: "promises ?t (fresh ?t) = None" using single_waiter_fresh [OF it] by simp
  have fs: "promises ?s (fresh ?s) = None" using single_waiter_fresh [OF iss] by simp
  have tok: "pending ?t' = {}" if "\<not> webViewRef ?t"
  proof -
    from that have "tokenReceivedResolverRef ?t' = None"
      by (simp add: sendTokenAndWaitConfirmation_eq [OF it])
    with pending_eq [OF it'] show ?thesis by simp
  qed
  have ses: "pending ?s' = {}" if "\<not> webViewRef ?s"
  proof -
    from that have "sessionSetResolverRef ?s' = None"
      by (simp add: syncSessionToWebView_Some_eq [OF iss])
    with pending_eq [OF iss'] show ?thesis by simp
  qed
  show ?thesis
    using ft fs tok ses
    by (simp add: sendTokenAndWaitConfirmation_eq [OF it] syncSessionToWebView_Some_eq [OF iss]
        syncSessionToWebView_None_eq [OF iss])
qed

theorem failed_send_resolves_false_witness:
  "\<not> webViewRef (token_run [])
 \<and> promises (snd (sendTokenAndWaitConfirmation (Some ''jwt'') 3000 (token_run [])))
      (fst (sendTokenAndWaitConfirmation (Some ''jwt'') 3000 (token_run []))) = Some False
 \<and> pending (snd (sendTokenAndWaitConfirmation (Some ''jwt'') 3000 (token_run []))) = {}
 \<and> \<not> webViewRef (session_run [])
 \<and> promises (snd (syncSessionToWebView (Some \<lparr>access_token = ''jwt'', refresh_token = ''r''\<rparr>) (session_run [])))
      (fst (syncSessionToWebView (Some \<lparr>access_token = ''jwt'', refresh_token = ''r''\<rparr>) (session_run [])))
     = Some False
 \<and> pending (snd (syncSessionToWebView (Some \<lparr>access_token = ''jwt'', refresh_token = ''r''\<rparr>) (session_run [])))
     = {}
 \<and> fst (syncSessionToWebView None (session_run [])) = 0
 \<and> promises (snd (syncSessionToWebView None (session_run []))) 0 = Some True
 \<and> effects (snd (syncSessionToWebView None (session_run []))) = []"
  using failed_send_resolves_false
    [where es = "[]" and token = "Some ''jwt''" and ms = 3000 and es' = "[]"
       and cur = "\<lparr>access_token = ''jwt'', refresh_token = ''r''\<rparr>"]
  by (simp add: token_run_def session_run_def init_token_hook_def init_session_hook_def)


text \<open>
  The claim as the specification words it fails for a call with no session (lines
  471--474): with no surface mounted the clear command is not injected, yet the promise
  returned (1) is fulfilled with true, and a waiter from before (promise 0, its timer
  armed) is left outstanding.
\<close>

theorem absent_session_resolves_true_unsent:
  "\<not> webViewRef
      (session_run [Mount, Call (SyncSessionToWebView (Some \<lparr>access_token = ''jwt'', refresh_token = ''r''\<rparr>)), Unmount])
 \<and> fst (syncSessionToWebView None
      (session_run [Mount, Call (SyncSessionToWebView (Some \<lparr>access_token = ''jwt'', refresh_token = ''r''\<rparr>)), Unmount]))
     = 1
 \<and> promises (snd (syncSessionToWebView None
      (session_run [Mount, Call (SyncSessionToWebView (Some \<lparr>access_token = ''jwt'', refresh_token = ''r''\<rparr>)), Unmount])))
      1 = Some True
 \<and> effects (snd (syncSessionToWebView None
      (session_run [Mount, Call (SyncSessionToWebView (Some \<lparr>access_token = ''jwt'', refresh_token = ''r''\<rparr>)), Unmount])))
     = [InjectJavaScript (SET_SESSION ''jwt'' ''r'')]
 \<and> sessionSetResolverRef (snd (syncSessionToWebView None
      (session_run [Mount, Call (SyncSessionToWebView (Some \<lparr>access_token = ''jwt'', refresh_token = ''r''\<rparr>)), Unmount])))
     = Some 0
 \<and> timers (snd (syncSessionToWebView None
      (session_run [Mount, Call (SyncSessionToWebView (Some \<lparr>access_token = ''jwt'', refresh_token = ''r''\<rparr>)), Unmount])))
      0 = Some 5000
 \<and> promises (snd (syncSessionToWebView None
      (session_run [Mount, Call (SyncSessionToWebView (Some \<lparr>access_token = ''jwt'', refresh_token = ''r''\<rparr>)), Unmount])))
      0 = None"
  by (simp add: run_eval)


section \<open>Credentials in a callback URL\<close>





end
